theory Spec2Isabelle
  imports Complex_Main
begin

section \<open>JavaScript numbers\<close>

text \<open>
  Every numeric field of the simulator is a JavaScript number, an IEEE-754 double.
  The model keeps the three special values apart from the finite ones and takes the
  finite values as real numbers. What is modelled is the part of the arithmetic the
  program's behaviour depends on: no operation raises, a division by zero gives an
  infinity or NaN, NaN propagates, \<open>Math.atan\<close> maps the infinities to \<open>\<plusminus>\<pi>/2\<close>.
  What is not modelled: rounding of finite results, overflow of finite results to an
  infinity, underflow of small results to zero, and the sign of zero (a zero divisor is
  taken as \<open>+0\<close>).
\<close>

datatype jsnum = Num real | PosInf | NegInf | NaN

fun isNaN :: "jsnum \<Rightarrow> bool" where
  "isNaN NaN = True"
| "isNaN _ = False"

fun isFinite :: "jsnum \<Rightarrow> bool" where
  "isFinite (Num _) = True"
| "isFinite _ = False"

fun js_neg :: "jsnum \<Rightarrow> jsnum" where
  "js_neg (Num a) = Num (- a)"
| "js_neg PosInf = NegInf"
| "js_neg NegInf = PosInf"
| "js_neg NaN = NaN"

text \<open>The infinity with the sign of a nonzero real, and NaN for zero.\<close>

definition signed_inf :: "real \<Rightarrow> jsnum" where
  "signed_inf a = (if a = 0 then NaN else if 0 < a then PosInf else NegInf)"

fun js_mul :: "jsnum \<Rightarrow> jsnum \<Rightarrow> jsnum" where
  "js_mul NaN _ = NaN"
| "js_mul _ NaN = NaN"
| "js_mul (Num a) (Num b) = Num (a * b)"
| "js_mul (Num a) PosInf = signed_inf a"
| "js_mul (Num a) NegInf = signed_inf (- a)"
| "js_mul PosInf (Num b) = signed_inf b"
| "js_mul NegInf (Num b) = signed_inf (- b)"
| "js_mul PosInf PosInf = PosInf"
| "js_mul PosInf NegInf = NegInf"
| "js_mul NegInf PosInf = NegInf"
| "js_mul NegInf NegInf = PosInf"

fun js_div :: "jsnum \<Rightarrow> jsnum \<Rightarrow> jsnum" where
  "js_div NaN _ = NaN"
| "js_div _ NaN = NaN"
| "js_div (Num a) (Num b) = (if b = 0 then signed_inf a else Num (a / b))"
| "js_div (Num a) PosInf = Num 0"
| "js_div (Num a) NegInf = Num 0"
| "js_div PosInf (Num b) = (if 0 \<le> b then PosInf else NegInf)"
| "js_div NegInf (Num b) = (if 0 \<le> b then NegInf else PosInf)"
| "js_div PosInf PosInf = NaN"
| "js_div PosInf NegInf = NaN"
| "js_div NegInf PosInf = NaN"
| "js_div NegInf NegInf = NaN"

fun js_sub :: "jsnum \<Rightarrow> jsnum \<Rightarrow> jsnum" where
  "js_sub NaN _ = NaN"
| "js_sub _ NaN = NaN"
| "js_sub (Num a) (Num b) = Num (a - b)"
| "js_sub (Num a) PosInf = NegInf"
| "js_sub (Num a) NegInf = PosInf"
| "js_sub PosInf (Num b) = PosInf"
| "js_sub NegInf (Num b) = NegInf"
| "js_sub PosInf PosInf = NaN"
| "js_sub PosInf NegInf = PosInf"
| "js_sub NegInf PosInf = NegInf"
| "js_sub NegInf NegInf = NaN"

text \<open>The comparisons \<open>a <= b\<close> and \<open>a < b\<close> of JavaScript: false as soon as one side is NaN.\<close>

fun js_le :: "jsnum \<Rightarrow> jsnum \<Rightarrow> bool" where
  "js_le NaN _ = False"
| "js_le _ NaN = False"
| "js_le (Num a) (Num b) = (a \<le> b)"
| "js_le NegInf _ = True"
| "js_le _ PosInf = True"
| "js_le PosInf _ = False"
| "js_le _ NegInf = False"

fun js_lt :: "jsnum \<Rightarrow> jsnum \<Rightarrow> bool" where
  "js_lt NaN _ = False"
| "js_lt _ NaN = False"
| "js_lt (Num a) (Num b) = (a < b)"
| "js_lt NegInf NegInf = False"
| "js_lt NegInf _ = True"
| "js_lt PosInf _ = False"
| "js_lt _ PosInf = True"
| "js_lt _ NegInf = False"

text \<open>\<open>Math.max\<close> and \<open>Math.min\<close> of two arguments: NaN as soon as one argument is.\<close>

fun Math_max :: "jsnum \<Rightarrow> jsnum \<Rightarrow> jsnum" where
  "Math_max NaN _ = NaN"
| "Math_max _ NaN = NaN"
| "Math_max (Num a) (Num b) = Num (max a b)"
| "Math_max PosInf _ = PosInf"
| "Math_max _ PosInf = PosInf"
| "Math_max NegInf b = b"
| "Math_max a NegInf = a"

fun Math_min :: "jsnum \<Rightarrow> jsnum \<Rightarrow> jsnum" where
  "Math_min NaN _ = NaN"
| "Math_min _ NaN = NaN"
| "Math_min (Num a) (Num b) = Num (min a b)"
| "Math_min NegInf _ = NegInf"
| "Math_min _ NegInf = NegInf"
| "Math_min PosInf b = b"
| "Math_min a PosInf = a"

fun Math_atan :: "jsnum \<Rightarrow> jsnum" where
  "Math_atan (Num a) = Num (arctan a)"
| "Math_atan PosInf = Num (pi / 2)"
| "Math_atan NegInf = Num (- (pi / 2))"
| "Math_atan NaN = NaN"

definition Math_PI :: jsnum where
  "Math_PI = Num pi"


section \<open>The parameter record (types.ts, constants.ts)\<close>

datatype ObjectType = Cube | Sphere | Torus | Dna | Custom

text \<open>
  The interface \<open>SimulationParams\<close>, with the field \<open>isViewLocked\<close> that
  \<open>DEFAULT_PARAMS\<close> carries and the components read and write.
\<close>

record SimulationParams =
  ipd :: jsnum
  focalLength :: jsnum
  targetDistance :: jsnum
  vergenceAngle :: jsnum
  objectType :: ObjectType
  wireframe :: bool
  cameraSize :: jsnum
  objectScale :: jsnum
  isPaused :: bool
  isViewLocked :: bool
  showBoundingBox :: bool
  showBackgroundBoundingBox :: bool
  showCameraBoundingBox :: bool
  showFOV :: bool
  customModelUrl :: "string option"

definition DEFAULT_PARAMS :: SimulationParams where
  "DEFAULT_PARAMS = \<lparr>
     ipd = Num 64,
     focalLength = Num 50,
     targetDistance = Num 2.5,
     vergenceAngle = Num 0,
     objectType = Torus,
     wireframe = False,
     cameraSize = Num 0.15,
     objectScale = Num 0.5,
     isPaused = False,
     isViewLocked = False,
     showBoundingBox = False,
     showBackgroundBoundingBox = False,
     showCameraBoundingBox = False,
     showFOV = True,
     customModelUrl = None \<rparr>"

definition MIN_IPD :: jsnum where "MIN_IPD = Num 0"
definition MAX_IPD :: jsnum where "MAX_IPD = Num 20000"
definition MIN_DISTANCE :: jsnum where "MIN_DISTANCE = Num 0.5"
definition MAX_DISTANCE :: jsnum where "MAX_DISTANCE = Num 10.0"


section \<open>Optical geometry\<close>

subsection \<open>The vergence effect of App\<close>

text \<open>
  The body of the effect: \<open>halfBaseM = (params.ipd / 1000) / 2\<close>,
  \<open>angleRad = Math.atan(halfBaseM / params.targetDistance)\<close>,
  \<open>angleDeg = angleRad * (180 / Math.PI)\<close>, and the stored value \<open>angleDeg * 2\<close>.
  The half angle \<open>angleDeg\<close> is the spec's \<open>convergenceHalfAngle\<close>.
\<close>

definition halfBaseM :: "jsnum \<Rightarrow> jsnum" where
  "halfBaseM i = js_div (js_div i (Num 1000)) (Num 2)"

definition angleRad :: "jsnum \<Rightarrow> jsnum \<Rightarrow> jsnum" where
  "angleRad i d = Math_atan (js_div (halfBaseM i) d)"

definition angleDeg :: "jsnum \<Rightarrow> jsnum \<Rightarrow> jsnum" where
  "angleDeg i d = js_mul (angleRad i d) (js_div (Num 180) Math_PI)"

definition totalVergence :: "jsnum \<Rightarrow> jsnum \<Rightarrow> jsnum" where
  "totalVergence i d = js_mul (angleDeg i d) (Num 2)"

text \<open>
  \<open>setParams(p => ({...p, vergenceAngle: angleDeg * 2}))\<close>: the angle is computed from
  the parameters of the render that scheduled the effect (the closure \<open>params\<close>), and
  written into the state \<open>p\<close> current when the update is applied.
\<close>

definition vergenceEffect :: "SimulationParams \<Rightarrow> SimulationParams \<Rightarrow> SimulationParams" where
  "vergenceEffect params p =
     p\<lparr>vergenceAngle := totalVergence (ipd params) (targetDistance params)\<rparr>"

subsection \<open>Camera rig of SimulationCanvas and CameraVisualizer\<close>

text \<open>\<open>halfBaseLine = (params.ipd * 0.001) / 2\<close>, in both components.\<close>

definition halfBaseLine :: "SimulationParams \<Rightarrow> jsnum" where
  "halfBaseLine params = js_div (js_mul (ipd params) (Num 0.001)) (Num 2)"

definition camZ :: "SimulationParams \<Rightarrow> jsnum" where
  "camZ params = targetDistance params"

text \<open>
  The \<open>position\<close> triples of the two eye cameras: \<open>[-halfBaseLine, 0, camZ]\<close> for the
  left eye and \<open>[halfBaseLine, 0, camZ]\<close> for the right one, the same for the
  \<open>PerspectiveCamera\<close> of each view and for the \<open>CameraMesh\<close> of the god view.
\<close>

definition leftEyePosition :: "SimulationParams \<Rightarrow> jsnum \<times> jsnum \<times> jsnum" where
  "leftEyePosition params = (js_neg (halfBaseLine params), Num 0, camZ params)"

definition rightEyePosition :: "SimulationParams \<Rightarrow> jsnum \<times> jsnum \<times> jsnum" where
  "rightEyePosition params = (halfBaseLine params, Num 0, camZ params)"

text \<open>
  The \<open>fov\<close> memo, the same in both components: \<open>sensorHeight = 24\<close>,
  \<open>fovRadians = 2 * Math.atan(sensorHeight / (2 * params.focalLength))\<close>, and the
  result \<open>(fovRadians * 180) / Math.PI\<close>.
\<close>

definition sensorHeight :: jsnum where
  "sensorHeight = Num 24"

definition fovRadians :: "SimulationParams \<Rightarrow> jsnum" where
  "fovRadians params =
     js_mul (Num 2) (Math_atan (js_div sensorHeight (js_mul (Num 2) (focalLength params))))"

definition fov :: "SimulationParams \<Rightarrow> jsnum" where
  "fov params = js_div (js_mul (fovRadians params) (Num 180)) Math_PI"


section \<open>Controls (Controls.tsx)\<close>

text \<open>The five sliders of the panel, with the \<open>min\<close> and \<open>max\<close> each one is given.\<close>

datatype SliderId =
  IpdSlider | DistanceSlider | FocalLengthSlider | ObjectScaleSlider | CameraSizeSlider

fun sliderMin :: "SliderId \<Rightarrow> jsnum" where
  "sliderMin IpdSlider = MIN_IPD"
| "sliderMin DistanceSlider = MIN_DISTANCE"
| "sliderMin FocalLengthSlider = Num 15"
| "sliderMin ObjectScaleSlider = Num 0.1"
| "sliderMin CameraSizeSlider = Num 0.1"

fun sliderMax :: "SliderId \<Rightarrow> jsnum" where
  "sliderMax IpdSlider = MAX_IPD"
| "sliderMax DistanceSlider = MAX_DISTANCE"
| "sliderMax FocalLengthSlider = Num 200"
| "sliderMax ObjectScaleSlider = Num 2.0"
| "sliderMax CameraSizeSlider = Num 1.0"

text \<open>
  The \<open>onChange\<close> each slider is given, \<open>(v) => updateParam(key, v)\<close>, where
  \<open>updateParam\<close> is \<open>setParams(prev => ({ ...prev, [key]: value }))\<close>.
\<close>

fun sliderOnChange :: "SliderId \<Rightarrow> jsnum \<Rightarrow> SimulationParams \<Rightarrow> SimulationParams" where
  "sliderOnChange IpdSlider v prev = prev\<lparr>ipd := v\<rparr>"
| "sliderOnChange DistanceSlider v prev = prev\<lparr>targetDistance := v\<rparr>"
| "sliderOnChange FocalLengthSlider v prev = prev\<lparr>focalLength := v\<rparr>"
| "sliderOnChange ObjectScaleSlider v prev = prev\<lparr>objectScale := v\<rparr>"
| "sliderOnChange CameraSizeSlider v prev = prev\<lparr>cameraSize := v\<rparr>"

text \<open>
  The handler of the slider's number box:
  \<open>const val = parseFloat(e.target.value); if (!isNaN(val)) onChange(Math.max(min, Math.min(max, val)))\<close>.
  The result is the argument \<open>onChange\<close> is called with, or \<open>None\<close> when it is not
  called. \<open>parseFloat\<close> is the built-in of the language, taken as a parameter.
\<close>

definition numberInputOnChange ::
  "(string \<Rightarrow> jsnum) \<Rightarrow> jsnum \<Rightarrow> jsnum \<Rightarrow> string \<Rightarrow> jsnum option" where
  "numberInputOnChange parseFloat mn mx typed =
     (let val = parseFloat typed
      in if \<not> isNaN val then Some (Math_max mn (Math_min mx val)) else None)"

text \<open>The handler of the slider's range input: \<open>onChange(parseFloat(e.target.value))\<close>.\<close>

definition rangeInputOnChange :: "(string \<Rightarrow> jsnum) \<Rightarrow> string \<Rightarrow> jsnum option" where
  "rangeInputOnChange parseFloat typed = Some (parseFloat typed)"

subsection \<open>The drag handler of the god view (SimulationCanvas.tsx)\<close>

text \<open>
  \<open>handleDragEnd\<close>: \<open>zOffset = meshRef.current.position.z\<close>,
  \<open>newDistance = Math.max(0.5, params.targetDistance - zOffset)\<close>, and the update
  \<open>setParams(prev => ({ ...prev, targetDistance: newDistance }))\<close>.
\<close>

definition handleDragEnd ::
  "SimulationParams \<Rightarrow> jsnum \<Rightarrow> SimulationParams \<Rightarrow> SimulationParams" where
  "handleDragEnd params zOffset prev =
     (let newDistance = Math_max (Num 0.5) (js_sub (targetDistance params) zOffset)
      in prev\<lparr>targetDistance := newDistance\<rparr>)"

text \<open>
  The depth coordinate of the group \<open>meshRef\<close> points to. The group is created
  without a position, at the origin; the frame callback writes its rotation and its
  \<open>position.y\<close> only; \<open>handleDragEnd\<close> sets the position back to the origin. The
  transform gizmo is given the group as its child and no \<open>object\<close>, so what a drag
  moves is the gizmo's own group around the child, not this one.
\<close>

definition meshPositionZ :: jsnum where
  "meshPositionZ = Num 0"

subsection \<open>User events and the render cycle\<close>

text \<open>
  Everything the user can do to the parameter record. The two inputs of a slider carry
  the text of the input element; the file input carries the object URL of the chosen
  file, if one was chosen.
\<close>

datatype Event =
    NumberInput SliderId string
  | RangeInput SliderId string
  | SelectObject ObjectType
  | FileUpload "string option"
  | TogglePause
  | ToggleWireframe
  | ToggleBoundingBox
  | ToggleBackgroundBoundingBox
  | ToggleCameraBoundingBox
  | ToggleFOV
  | ToggleViewLock
  | DragEnd

text \<open>
  The state update each event makes. The transform gizmo that reports a drag is only
  rendered while the view is locked, so a drag in an unlocked view changes nothing.
\<close>

fun applyEvent :: "(string \<Rightarrow> jsnum) \<Rightarrow> Event \<Rightarrow> SimulationParams \<Rightarrow> SimulationParams" where
  "applyEvent parseFloat (NumberInput sl typed) s =
     (case numberInputOnChange parseFloat (sliderMin sl) (sliderMax sl) typed of
        None \<Rightarrow> s
      | Some v \<Rightarrow> sliderOnChange sl v s)"
| "applyEvent parseFloat (RangeInput sl typed) s =
     (case rangeInputOnChange parseFloat typed of
        None \<Rightarrow> s
      | Some v \<Rightarrow> sliderOnChange sl v s)"
| "applyEvent parseFloat (SelectObject t) s = s\<lparr>objectType := t\<rparr>"
| "applyEvent parseFloat (FileUpload file) s =
     (case file of
        None \<Rightarrow> s
      | Some url \<Rightarrow> s\<lparr>customModelUrl := Some url, objectType := Custom\<rparr>)"
| "applyEvent parseFloat TogglePause s = s\<lparr>isPaused := \<not> isPaused s\<rparr>"
| "applyEvent parseFloat ToggleWireframe s = s\<lparr>wireframe := \<not> wireframe s\<rparr>"
| "applyEvent parseFloat ToggleBoundingBox s = s\<lparr>showBoundingBox := \<not> showBoundingBox s\<rparr>"
| "applyEvent parseFloat ToggleBackgroundBoundingBox s =
     s\<lparr>showBackgroundBoundingBox := \<not> showBackgroundBoundingBox s\<rparr>"
| "applyEvent parseFloat ToggleCameraBoundingBox s =
     s\<lparr>showCameraBoundingBox := \<not> showCameraBoundingBox s\<rparr>"
| "applyEvent parseFloat ToggleFOV s = s\<lparr>showFOV := \<not> showFOV s\<rparr>"
| "applyEvent parseFloat ToggleViewLock s = s\<lparr>isViewLocked := \<not> isViewLocked s\<rparr>"
| "applyEvent parseFloat DragEnd s =
     (if isViewLocked s then handleDragEnd s meshPositionZ s else s)"

text \<open>
  The dependency list \<open>[params.ipd, params.targetDistance]\<close> of the effect: after a
  render the effect runs when one of the two differs from its value at the previous
  render. It always runs after the first render.
\<close>

definition depsUnchanged :: "SimulationParams \<Rightarrow> SimulationParams \<Rightarrow> bool" where
  "depsUnchanged prev next = (ipd next = ipd prev \<and> targetDistance next = targetDistance prev)"

definition commit :: "SimulationParams \<Rightarrow> SimulationParams \<Rightarrow> SimulationParams" where
  "commit prev next = (if depsUnchanged prev next then next else vergenceEffect next next)"

definition dispatch :: "(string \<Rightarrow> jsnum) \<Rightarrow> Event \<Rightarrow> SimulationParams \<Rightarrow> SimulationParams" where
  "dispatch parseFloat ev s = commit s (applyEvent parseFloat ev s)"

definition mount :: SimulationParams where
  "mount = vergenceEffect DEFAULT_PARAMS DEFAULT_PARAMS"

text \<open>
  The parameter record after a sequence of events, each one followed by its render and
  the effects of that render; the states the session can be in between two events.
\<close>

fun runFrom :: "(string \<Rightarrow> jsnum) \<Rightarrow> SimulationParams \<Rightarrow> Event list \<Rightarrow> SimulationParams" where
  "runFrom parseFloat s [] = s"
| "runFrom parseFloat s (ev # evs) = runFrom parseFloat (dispatch parseFloat ev s) evs"

definition run :: "(string \<Rightarrow> jsnum) \<Rightarrow> Event list \<Rightarrow> SimulationParams" where
  "run parseFloat evs = runFrom parseFloat mount evs"

text \<open>
  Every value the parameter record takes in a session, in order: the initial value of
  \<open>useState\<close>, which the first render shows; the value after the effect of the first
  render; then for each event the value its handler stores, which the next render
  shows, and the value after the effect of that render.
\<close>

fun statesFrom ::
  "(string \<Rightarrow> jsnum) \<Rightarrow> SimulationParams \<Rightarrow> Event list \<Rightarrow> SimulationParams list" where
  "statesFrom parseFloat s [] = []"
| "statesFrom parseFloat s (ev # evs) =
     applyEvent parseFloat ev s # dispatch parseFloat ev s
       # statesFrom parseFloat (dispatch parseFloat ev s) evs"

definition allStates :: "(string \<Rightarrow> jsnum) \<Rightarrow> Event list \<Rightarrow> SimulationParams list" where
  "allStates parseFloat evs = DEFAULT_PARAMS # mount # statesFrom parseFloat mount evs"

text \<open>The stored angle is the one the effect computes from the stored parameters.\<close>

definition vergenceCurrent :: "SimulationParams \<Rightarrow> bool" where
  "vergenceCurrent s = (vergenceAngle s = totalVergence (ipd s) (targetDistance s))"




section \<open>The analysis request (App.handleAnalyze, geminiService.analyzeSimulation)\<close>

record AIAnalysisResult =
  title :: string
  explanation :: string
  depthImplications :: string
  technicalNote :: string

text \<open>
  A thrown value, with its \<open>message\<close> property when it has one. The values thrown
  here are objects: the two \<open>Error\<close>s of \<open>analyzeSimulation\<close>, what the request
  throws, and the \<open>SyntaxError\<close> of \<open>JSON.parse\<close>.
\<close>

datatype Thrown = Thrown (message: "string option")

text \<open>The message texts of the source, as the bytes of their UTF-8 encoding.\<close>

definition analysisFailedMessage :: string where
  "analysisFailedMessage =
     [CHR 0xE5, CHR 0x88, CHR 0x86, CHR 0xE6, CHR 0x9E, CHR 0x90,
      CHR 0xE5, CHR 0xA4, CHR 0xB1, CHR 0xE8, CHR 0xB4, CHR 0xA5]"

definition missingKeyMessage :: string where
  "missingKeyMessage =
     [CHR 0xE7, CHR 0xBC, CHR 0xBA, CHR 0xE5, CHR 0xB0, CHR 0x91, CHR 0x20, CHR 0x47,
      CHR 0x65, CHR 0x6D, CHR 0x69, CHR 0x6E, CHR 0x69, CHR 0x20, CHR 0x41, CHR 0x50,
      CHR 0x49, CHR 0x20, CHR 0xE5, CHR 0xAF, CHR 0x86, CHR 0xE9, CHR 0x92, CHR 0xA5,
      CHR 0xE3, CHR 0x80, CHR 0x82, CHR 0xE8, CHR 0xAF, CHR 0xB7, CHR 0xE6, CHR 0xA3,
      CHR 0x80, CHR 0xE6, CHR 0x9F, CHR 0xA5, CHR 0xE6, CHR 0x82, CHR 0xA8, CHR 0xE7,
      CHR 0x9A, CHR 0x84, CHR 0xE7, CHR 0x8E, CHR 0xAF, CHR 0xE5, CHR 0xA2, CHR 0x83,
      CHR 0xE9, CHR 0x85, CHR 0x8D, CHR 0xE7, CHR 0xBD, CHR 0xAE, CHR 0xE3, CHR 0x80,
      CHR 0x82]"

definition noResponseMessage :: string where
  "noResponseMessage =
     [CHR 0x47, CHR 0x65, CHR 0x6D, CHR 0x69, CHR 0x6E, CHR 0x69, CHR 0x20, CHR 0xE6,
      CHR 0xB2, CHR 0xA1, CHR 0xE6, CHR 0x9C, CHR 0x89, CHR 0xE5, CHR 0x93, CHR 0x8D,
      CHR 0xE5, CHR 0xBA, CHR 0x94]"

text \<open>
  \<open>analyzeSimulation\<close>. The client \<open>ai\<close> is null when the API key is empty. The
  request \<open>ai.models.generateContent\<close> and \<open>JSON.parse\<close> are taken as parameters:
  the request either throws or gives a response with an optional \<open>text\<close>, and its
  prompt is built from the parameter record; the parser either throws or gives the
  parsed object. The \<open>catch\<close> block logs and throws the same value again.
\<close>

definition analyzeSimulation ::
  "string \<Rightarrow> (SimulationParams \<Rightarrow> Thrown + string option) \<Rightarrow>
   (string \<Rightarrow> Thrown + AIAnalysisResult) \<Rightarrow> SimulationParams \<Rightarrow> Thrown + AIAnalysisResult" where
  "analyzeSimulation apiKey generateContent JSON_parse ps =
     (if apiKey = [] then Inl (Thrown (Some missingKeyMessage))
      else case generateContent ps of
             Inl e \<Rightarrow> Inl e
           | Inr None \<Rightarrow> Inl (Thrown (Some noResponseMessage))
           | Inr (Some txt) \<Rightarrow>
               if txt = [] then Inl (Thrown (Some noResponseMessage)) else JSON_parse txt)"

text \<open>
  The state of \<open>App\<close>. \<open>analyzeCalls\<close> is not a variable of the program: it counts the
  calls of \<open>analyzeSimulation\<close> made so far.
\<close>

record AppState =
  params :: SimulationParams
  analysis :: "AIAnalysisResult option"
  isAnalyzing :: bool
  error :: "string option"
  analyzeCalls :: nat

text \<open>\<open>e.message || fallback\<close>: the fallback when the message is missing or empty.\<close>

definition messageOr :: "Thrown \<Rightarrow> string \<Rightarrow> string" where
  "messageOr e fallback =
     (case message e of
        None \<Rightarrow> fallback
      | Some m \<Rightarrow> if m = [] then fallback else m)"

text \<open>
  \<open>handleAnalyze\<close> in two parts, before and after the \<open>await\<close>: the two updates that
  start the request, and the updates of \<open>try\<close>, \<open>catch\<close> and \<open>finally\<close> once the
  request has settled. Other events may change the state between the two.
\<close>

definition handleAnalyze_begin :: "AppState \<Rightarrow> AppState" where
  "handleAnalyze_begin s = s\<lparr>isAnalyzing := True, error := None,
                              analyzeCalls := Suc (analyzeCalls s)\<rparr>"

definition handleAnalyze_settled :: "Thrown + AIAnalysisResult \<Rightarrow> AppState \<Rightarrow> AppState" where
  "handleAnalyze_settled outcome s =
     (let s' = (case outcome of
                  Inr result \<Rightarrow> s\<lparr>analysis := Some result\<rparr>
                | Inl e \<Rightarrow> s\<lparr>error := Some (messageOr e analysisFailedMessage)\<rparr>)
      in s'\<lparr>isAnalyzing := False\<rparr>)"

text \<open>
  The whole handler when nothing else happens in between. \<open>service n\<close> is what the
  \<open>n\<close>-th call of \<open>analyzeSimulation\<close> of the session gives, on the parameters of the
  render the handler belongs to.
\<close>

definition handleAnalyze ::
  "(nat \<Rightarrow> SimulationParams \<Rightarrow> Thrown + AIAnalysisResult) \<Rightarrow> AppState \<Rightarrow> AppState" where
  "handleAnalyze service s =
     handleAnalyze_settled (service (analyzeCalls s) (params s)) (handleAnalyze_begin s)"


text \<open>The initial values of the state variables of \<open>App\<close>, the view mode left out.\<close>

definition initialAppState :: AppState where
  "initialAppState = \<lparr>
     params = DEFAULT_PARAMS,
     analysis = None,
     isAnalyzing = False,
     error = None,
     analyzeCalls = 0 \<rparr>"


section \<open>Bounds on the inverse tangent and on pi\<close>

lemma arctan_partial_sums:
  fixes x :: real
  assumes "0 < x" "x \<le> 1"
  shows "(\<Sum>i<2*n. (- 1)^i * (1 / real (i * 2 + 1) * x ^ (i * 2 + 1))) \<le> arctan x"
    and "arctan x \<le> (\<Sum>i<2*n+1. (- 1)^i * (1 / real (i * 2 + 1) * x ^ (i * 2 + 1)))"
proof -
  let ?a = "\<lambda>i. 1 / real (i * 2 + 1) * x ^ (i * 2 + 1)"
  have ax: "\<bar>x\<bar> \<le> 1" using assms by simp
  have pos: "0 < ?a 0" using assms by simp
  have "(\<Sum>i. (- 1)^i * ?a i) \<in> {(\<Sum>i<2*n. (- 1)^i * ?a i) .. (\<Sum>i<2*n+1. (- 1)^i * ?a i)}"
    using summable_Leibniz(2)[OF zeroseq_arctan_series[OF ax] monoseq_arctan_series[OF ax]] pos
    by blast
  then show "(\<Sum>i<2*n. (- 1)^i * ?a i) \<le> arctan x"
    and "arctan x \<le> (\<Sum>i<2*n+1. (- 1)^i * ?a i)"
    using arctan_series[OF ax] by simp_all
qed

lemma arctan_6_25_lower: "(0.2355447::real) \<le> arctan (6/25)"
  using arctan_partial_sums(1)[of "6/25" 2]
  by (simp add: lessThan_nat_numeral lessThan_Suc power_divide)

lemma arctan_6_25_upper: "arctan (6/25) \<le> (0.2355451::real)"
  using arctan_partial_sums(2)[of "6/25" 2]
  by (simp add: lessThan_nat_numeral lessThan_Suc power_divide)

lemma pi_lower: "(3.14159::real) \<le> pi"
  using arctan_partial_sums(1)[of "1/5" 3] arctan_partial_sums(2)[of "1/239" 1] machin
  by (simp add: lessThan_nat_numeral lessThan_Suc power_divide)

lemma pi_upper: "pi \<le> (3.1416::real)"
  using arctan_partial_sums(2)[of "1/5" 2] arctan_partial_sums(1)[of "1/239" 1] machin
  by (simp add: lessThan_nat_numeral lessThan_Suc power_divide)


section \<open>Values of the geometry on finite inputs\<close>

lemma angleDeg_Num:
  "d \<noteq> 0 \<Longrightarrow> angleDeg (Num i) (Num d) = Num (arctan ((i / 1000 / 2) / d) * (180 / pi))"
  by (simp add: angleDeg_def angleRad_def halfBaseM_def Math_PI_def)

lemma totalVergence_Num:
  "d \<noteq> 0 \<Longrightarrow>
     totalVergence (Num i) (Num d) = Num (2 * (arctan ((i / 1000 / 2) / d) * (180 / pi)))"
  by (simp add: totalVergence_def angleDeg_Num)

lemma fov_Num:
  "f \<noteq> 0 \<Longrightarrow> focalLength p = Num f \<Longrightarrow> fov p = Num (2 * arctan (24 / (2 * f)) * 180 / pi)"
  by (simp add: fov_def fovRadians_def sensorHeight_def Math_PI_def)

lemma halfBaseLine_eq: "halfBaseLine p = js_div (js_div (ipd p) (Num 1000)) (Num 2)"
  by (cases "ipd p") (simp_all add: halfBaseLine_def signed_inf_def)

lemma degrees_mono: "x \<le> y \<Longrightarrow> arctan x * (180 / pi) \<le> arctan y * (180 / pi)"
  by (rule mult_right_mono) (simp_all add: arctan_le_iff)

lemma degrees_strict_mono: "x < y \<Longrightarrow> arctan x * (180 / pi) < arctan y * (180 / pi)"
  by (rule mult_strict_right_mono) (simp_all add: arctan_less_iff)

lemma fov_50_approx:
  "(26.985::real) < 2 * arctan (12 / 50) * 180 / pi \<and>
   2 * arctan (12 / 50) * 180 / pi < (26.995::real)"
proof -
  define t :: real where "t = 2 * arctan (12 / 50) * 180 / pi"
  have e: "arctan (12 / 50) = arctan (6 / 25 :: real)" by simp
  have a1: "(0.2355447::real) \<le> arctan (12/50)" unfolding e by (rule arctan_6_25_lower)
  have a2: "arctan (12/50) \<le> (0.2355451::real)" unfolding e by (rule arctan_6_25_upper)
  have p0: "0 < pi" by simp
  have tp: "t * pi = 2 * arctan (12 / 50) * 180" by (simp add: t_def)
  have lo: "26.985 * pi < t * pi"
    unfolding tp using a1 pi_upper by simp
  have hi: "t * pi < 26.995 * pi"
    unfolding tp using a2 pi_lower by simp
  have "26.985 < t" using lo p0 by (simp only: mult_less_cancel_right_pos)
  moreover have "t < 26.995" using hi p0 by (simp only: mult_less_cancel_right_pos)
  ultimately have "26.985 < t \<and> t < 26.995" by blast
  then show ?thesis by (simp only: t_def)
qed


section \<open>The render cycle keeps the stored angle current\<close>

lemma sliderOnChange_vergenceAngle: "vergenceAngle (sliderOnChange sl v s) = vergenceAngle s"
  by (cases sl) simp_all

lemma applyEvent_vergenceAngle: "vergenceAngle (applyEvent pf ev s) = vergenceAngle s"
  by (cases ev)
     (simp_all add: sliderOnChange_vergenceAngle handleDragEnd_def rangeInputOnChange_def
        split: option.splits)

lemma vergenceCurrent_mount: "vergenceCurrent mount"
  by (simp add: vergenceCurrent_def mount_def vergenceEffect_def)

lemma vergenceCurrent_dispatch: "vergenceCurrent s \<Longrightarrow> vergenceCurrent (dispatch pf ev s)"
  by (simp add: vergenceCurrent_def dispatch_def commit_def depsUnchanged_def
      vergenceEffect_def applyEvent_vergenceAngle)

lemma vergenceCurrent_runFrom: "vergenceCurrent s \<Longrightarrow> vergenceCurrent (runFrom pf s evs)"
  by (induction evs arbitrary: s) (simp_all add: vergenceCurrent_dispatch)


lemma messageOr_nonempty: "fallback \<noteq> [] \<Longrightarrow> messageOr e fallback \<noteq> []"
  by (simp add: messageOr_def split: option.splits)


section \<open>The whole sequence of states\<close>

lemma last_statesFrom: "last (x # s # statesFrom pf s evs) = runFrom pf s evs"
  by (induction evs arbitrary: x s) simp_all

lemma last_allStates: "last (allStates pf evs) = run pf evs"
  unfolding allStates_def run_def by (rule last_statesFrom)











section \<open>Properties of the specification\<close>

text \<open>
  C1, as stated, fails: the initial value of the parameter record, which the first
  render shows, is \<open>DEFAULT_PARAMS\<close>, with the stored angle 0 at 64 mm and 2.5 m, where
  the effect computes an angle other than 0.
\<close>

theorem stale_angle_at_first_render:
  "vergenceAngle DEFAULT_PARAMS = Num 0 \<and>
   totalVergence (ipd DEFAULT_PARAMS) (targetDistance DEFAULT_PARAMS) \<noteq> Num 0 \<and>
   \<not> vergenceCurrent DEFAULT_PARAMS"
proof -
  have t: "totalVergence (ipd DEFAULT_PARAMS) (targetDistance DEFAULT_PARAMS)
             = Num (2 * (arctan ((64 / 1000 / 2) / 2.5) * (180 / pi)))"
    by (simp add: DEFAULT_PARAMS_def totalVergence_Num)
  have "arctan ((64 / 1000 / 2) / 2.5) \<noteq> (0::real)"
    by (simp add: arctan_eq_zero_iff)
  then have "2 * (arctan ((64 / 1000 / 2) / 2.5) * (180 / pi)) \<noteq> (0::real)"
    by simp
  with t have n: "totalVergence (ipd DEFAULT_PARAMS) (targetDistance DEFAULT_PARAMS) \<noteq> Num 0"
    by simp
  have z: "vergenceAngle DEFAULT_PARAMS = Num 0"
    by (simp add: DEFAULT_PARAMS_def)
  from n z show ?thesis
    by (simp add: vergenceCurrent_def)
qed

text \<open>
  C1, amended. Whenever the interpupillary distance or the target distance changes, the
  effect of the next render stores the vergence angle anew; in every state the session
  reaches once the effect of the last render has run, the last of the states so far,
  the stored angle is the value the effect computes from the stored interpupillary
  distance and target distance, \<open>angleDeg * 2\<close>, which on a finite distance other than
  zero is twice \<open>atan((ipd / 1000 / 2) / targetDistance)\<close> in degrees. No event handler
  writes the angle: only the effect does.
\<close>

theorem vergence_is_function_of_ipd_and_distance:
  "vergenceAngle (run pf evs) = totalVergence (ipd (run pf evs)) (targetDistance (run pf evs)) \<and>
   (ipd (run pf evs) = Num i \<and> targetDistance (run pf evs) = Num d \<and> d \<noteq> 0 \<longrightarrow>
      vergenceAngle (run pf evs) = Num (2 * (arctan ((i / 1000 / 2) / d) * (180 / pi)))) \<and>
   vergenceAngle (applyEvent pf ev (run pf evs)) = vergenceAngle (run pf evs) \<and>
   run pf evs = last (allStates pf evs)"
proof -
  have inv: "vergenceCurrent (run pf evs)"
    unfolding run_def by (rule vergenceCurrent_runFrom [OF vergenceCurrent_mount])
  then have a: "vergenceAngle (run pf evs)
                  = totalVergence (ipd (run pf evs)) (targetDistance (run pf evs))"
    by (simp add: vergenceCurrent_def)
  show ?thesis
    using a by (simp add: totalVergence_Num applyEvent_vergenceAngle last_allStates)
qed

text \<open>C1, amended, at the session where 70 is typed into the number box of the IPD slider.\<close>

theorem vergence_is_function_of_ipd_and_distance_witness:
  "ipd (run (\<lambda>t. Num 70) [NumberInput IpdSlider ''70'']) = Num 70 \<and>
   targetDistance (run (\<lambda>t. Num 70) [NumberInput IpdSlider ''70'']) = Num 2.5 \<and>
   (2.5::real) \<noteq> 0 \<and>
   vergenceAngle (run (\<lambda>t. Num 70) [NumberInput IpdSlider ''70''])
     = Num (2 * (arctan ((70 / 1000 / 2) / 2.5) * (180 / pi)))"
proof -
  have i: "ipd (run (\<lambda>t. Num 70) [NumberInput IpdSlider ''70'']) = Num 70"
    by (simp add: run_def dispatch_def commit_def depsUnchanged_def mount_def
        vergenceEffect_def DEFAULT_PARAMS_def numberInputOnChange_def MIN_IPD_def MAX_IPD_def)
  have d: "targetDistance (run (\<lambda>t. Num 70) [NumberInput IpdSlider ''70'']) = Num 2.5"
    by (simp add: run_def dispatch_def commit_def depsUnchanged_def mount_def
        vergenceEffect_def DEFAULT_PARAMS_def numberInputOnChange_def MIN_IPD_def MAX_IPD_def)
  have nz: "(2.5::real) \<noteq> 0" by simp
  from vergence_is_function_of_ipd_and_distance
         [of "\<lambda>t. Num 70" "[NumberInput IpdSlider ''70'']" 70 "2.5" TogglePause] i d nz
  show ?thesis by blast
qed

text \<open>
  C2. For every strictly positive focal length the field of view is
  \<open>2 * atan(24 / (2 * focalLength))\<close> in degrees; at 50 mm it is \<open>2 * atan(12 / 50)\<close> in
  degrees, a value between 26.985 and 26.995.
\<close>

theorem fieldOfView_formula:
  "focalLength p = Num f \<Longrightarrow> 0 < f \<Longrightarrow>
     fov p = Num (2 * arctan (24 / (2 * f)) * 180 / pi) \<and>
     (f = 50 \<longrightarrow> fov p = Num (2 * arctan (12 / 50) * 180 / pi) \<and>
        26.985 < 2 * arctan (12 / 50) * 180 / pi \<and>
        2 * arctan (12 / 50) * 180 / pi < 26.995)"
proof -
  assume h: "focalLength p = Num f" "0 < f"
  then have f0: "f \<noteq> 0" by simp
  have g: "fov p = Num (2 * arctan (24 / (2 * f)) * 180 / pi)"
    by (rule fov_Num [OF f0 h(1)])
  have "f = 50 \<longrightarrow> fov p = Num (2 * arctan (12 / 50) * 180 / pi)"
    using g by simp
  with g fov_50_approx show ?thesis by blast
qed

text \<open>C2, at the default parameters, whose focal length is 50 mm.\<close>

theorem fieldOfView_formula_witness:
  "focalLength DEFAULT_PARAMS = Num 50 \<and> (0::real) < 50 \<and>
   fov DEFAULT_PARAMS = Num (2 * arctan (12 / 50) * 180 / pi) \<and>
   (26.985::real) < 2 * arctan (12 / 50) * 180 / pi \<and>
   2 * arctan (12 / 50) * 180 / pi < (26.995::real)"
  using fieldOfView_formula [of DEFAULT_PARAMS 50] by (simp add: DEFAULT_PARAMS_def)

text \<open>
  C3. The two eye cameras sit at \<open>-(ipd / 1000) / 2\<close> and \<open>+(ipd / 1000) / 2\<close> on the
  horizontal axis, at height 0 and depth \<open>targetDistance\<close>, for every value of the
  interpupillary distance; at 64 mm the offsets are -0.032 and +0.032.
\<close>

theorem eyeOffsets_symmetric:
  "leftEyePosition p
     = (js_neg (js_div (js_div (ipd p) (Num 1000)) (Num 2)), Num 0, targetDistance p) \<and>
   rightEyePosition p
     = (js_div (js_div (ipd p) (Num 1000)) (Num 2), Num 0, targetDistance p) \<and>
   fst (leftEyePosition (p\<lparr>ipd := Num i\<rparr>)) = Num (- ((i / 1000) / 2)) \<and>
   fst (rightEyePosition (p\<lparr>ipd := Num i\<rparr>)) = Num ((i / 1000) / 2) \<and>
   fst (leftEyePosition (p\<lparr>ipd := Num 64\<rparr>)) = Num (- 0.032) \<and>
   fst (rightEyePosition (p\<lparr>ipd := Num 64\<rparr>)) = Num 0.032"
  by (simp add: leftEyePosition_def rightEyePosition_def halfBaseLine_eq camZ_def)

text \<open>
  C4, as stated, fails: at target distance 0 and the default 64 mm the half-angle
  computation raises nothing and returns the finite number 90, the degrees of
  \<open>Math.atan(Infinity)\<close>.
\<close>

theorem halfAngle_at_zero_distance:
  "angleDeg (Num 64) (Num 0) = Num 90 \<and> isFinite (angleDeg (Num 64) (Num 0))"
  by (simp add: angleDeg_def angleRad_def halfBaseM_def Math_PI_def signed_inf_def)

text \<open>
  C4, amended. The half-angle computation raises no error: for every interpupillary
  distance and target distance it returns a number, finite or NaN. On a finite
  interpupillary distance and a strictly positive finite target distance the number is
  \<open>atan((ipd / 1000 / 2) / targetDistance)\<close> in degrees.
\<close>

theorem halfAngle_total:
  "(0 < d \<longrightarrow> angleDeg (Num i) (Num d) = Num (arctan ((i / 1000 / 2) / d) * (180 / pi))) \<and>
   (isFinite (angleDeg a b) \<or> isNaN (angleDeg a b))"
proof (intro conjI impI)
  assume "0 < d"
  then have "d \<noteq> 0" by simp
  then show "angleDeg (Num i) (Num d) = Num (arctan ((i / 1000 / 2) / d) * (180 / pi))"
    by (rule angleDeg_Num)
next
  show "isFinite (angleDeg a b) \<or> isNaN (angleDeg a b)"
    by (cases a; cases b;
        simp add: angleDeg_def angleRad_def halfBaseM_def Math_PI_def signed_inf_def)
qed

text \<open>
  C4, amended, at the default 64 mm and 2.5 m, and at 64 mm and an infinite distance,
  where the number returned is 0.
\<close>

theorem halfAngle_total_witness:
  "(0::real) < 2.5 \<and>
   angleDeg (Num 64) (Num 2.5) = Num (arctan ((64 / 1000 / 2) / 2.5) * (180 / pi)) \<and>
   isFinite (angleDeg (Num 64) PosInf)"
proof -
  have pos: "(0::real) < 2.5" by simp
  have n: "\<not> isNaN (angleDeg (Num 64) PosInf)"
    by (simp add: angleDeg_def angleRad_def halfBaseM_def Math_PI_def)
  from halfAngle_total [of "2.5" 64 "Num 64" PosInf] pos n
  show ?thesis by blast
qed



text \<open>
  C6. At a strictly positive target distance the convergence half angle grows with the
  interpupillary distance, and at an interpupillary distance that is not negative it
  falls as the target distance grows; strictly so when the interpupillary distance is
  positive. The strict parts are statements of exact arithmetic: rounding can merge the
  angles of two inputs that are close.
\<close>

theorem halfAngle_monotone:
  "(0 < d \<and> i1 \<le> i2 \<longrightarrow> js_le (angleDeg (Num i1) (Num d)) (angleDeg (Num i2) (Num d))) \<and>
   (0 < d \<and> i1 < i2 \<longrightarrow> js_lt (angleDeg (Num i1) (Num d)) (angleDeg (Num i2) (Num d))) \<and>
   (0 \<le> i \<and> 0 < d1 \<and> d1 \<le> d2 \<longrightarrow>
      js_le (angleDeg (Num i) (Num d2)) (angleDeg (Num i) (Num d1))) \<and>
   (0 < i \<and> 0 < d1 \<and> d1 < d2 \<longrightarrow>
      js_lt (angleDeg (Num i) (Num d2)) (angleDeg (Num i) (Num d1)))"
proof (intro conjI impI)
  assume h: "0 < d \<and> i1 \<le> i2"
  then have "i1 / 1000 / 2 / d \<le> i2 / 1000 / 2 / d" by (simp add: divide_right_mono)
  then show "js_le (angleDeg (Num i1) (Num d)) (angleDeg (Num i2) (Num d))"
    using h degrees_mono by (simp add: angleDeg_Num)
next
  assume h: "0 < d \<and> i1 < i2"
  then have "i1 / 1000 / 2 / d < i2 / 1000 / 2 / d" by (simp add: divide_strict_right_mono)
  then show "js_lt (angleDeg (Num i1) (Num d)) (angleDeg (Num i2) (Num d))"
    using h degrees_strict_mono by (simp add: angleDeg_Num)
next
  assume h: "0 \<le> i \<and> 0 < d1 \<and> d1 \<le> d2"
  then have "i / 1000 / 2 / d2 \<le> i / 1000 / 2 / d1" by (simp add: frac_le)
  then show "js_le (angleDeg (Num i) (Num d2)) (angleDeg (Num i) (Num d1))"
    using h degrees_mono by (simp add: angleDeg_Num)
next
  assume h: "0 < i \<and> 0 < d1 \<and> d1 < d2"
  then have "i / 1000 / 2 / d2 < i / 1000 / 2 / d1" by (simp add: frac_less2)
  then show "js_lt (angleDeg (Num i) (Num d2)) (angleDeg (Num i) (Num d1))"
    using h degrees_strict_mono by (simp add: angleDeg_Num)
qed

text \<open>
  C6, at 2.5 m between 60 mm and 64 mm, and at 64 mm between 2.5 m and 10 m.
\<close>

theorem halfAngle_monotone_witness:
  "(0::real) < 2.5 \<and> (60::real) < 64 \<and> (0::real) < 64 \<and> (2.5::real) < 10 \<and>
   js_le (angleDeg (Num 60) (Num 2.5)) (angleDeg (Num 64) (Num 2.5)) \<and>
   js_lt (angleDeg (Num 60) (Num 2.5)) (angleDeg (Num 64) (Num 2.5)) \<and>
   js_le (angleDeg (Num 64) (Num 10)) (angleDeg (Num 64) (Num 2.5)) \<and>
   js_lt (angleDeg (Num 64) (Num 10)) (angleDeg (Num 64) (Num 2.5))"
proof -
  have a: "(0::real) < 2.5" and b: "(60::real) < 64" and b': "(60::real) \<le> 64"
    and c: "(0::real) < 64" and c': "(0::real) \<le> 64"
    and e: "(2.5::real) < 10" and e': "(2.5::real) \<le> 10"
    by simp_all
  from halfAngle_monotone [of "2.5" 60 64 64 "2.5" 10] a b b' c c' e e'
  show ?thesis by blast
qed

text \<open>
  C7. When the analysis request fails, the handler leaves the parameters and the last
  analysis as they were, sets the loading flag back to false, stores a message that is
  not empty (the message of the thrown value, or the fallback text), and has called
  \<open>analyzeSimulation\<close> once. Neither part of the handler touches the parameters,
  whatever happened between the two. A missing key, a request that throws and a response
  text that does not parse each make \<open>analyzeSimulation\<close> throw.
\<close>

theorem failed_analysis_leaves_params:
  "(service (analyzeCalls s) (params s) = Inl e \<longrightarrow>
      params (handleAnalyze service s) = params s \<and>
      analysis (handleAnalyze service s) = analysis s \<and>
      isAnalyzing (handleAnalyze service s) = False \<and>
      error (handleAnalyze service s) = Some (messageOr e analysisFailedMessage) \<and>
      messageOr e analysisFailedMessage \<noteq> [] \<and>
      analyzeCalls (handleAnalyze service s) = Suc (analyzeCalls s)) \<and>
   params (handleAnalyze_begin s) = params s \<and>
   params (handleAnalyze_settled (Inl e) s') = params s' \<and>
   isAnalyzing (handleAnalyze_settled (Inl e) s') = False \<and>
   error (handleAnalyze_settled (Inl e) s') = Some (messageOr e analysisFailedMessage) \<and>
   analyzeCalls (handleAnalyze_settled (Inl e) s') = analyzeCalls s' \<and>
   analyzeSimulation [] gen parse ps = Inl (Thrown (Some missingKeyMessage)) \<and>
   (key \<noteq> [] \<and> gen ps = Inl e \<longrightarrow> analyzeSimulation key gen parse ps = Inl e) \<and>
   (key \<noteq> [] \<and> gen ps = Inr (Some txt) \<and> txt \<noteq> [] \<and> parse txt = Inl e \<longrightarrow>
      analyzeSimulation key gen parse ps = Inl e)"
  by (simp add: handleAnalyze_def handleAnalyze_begin_def handleAnalyze_settled_def
      analyzeSimulation_def messageOr_nonempty analysisFailedMessage_def)

text \<open>
  C7, at the first request of a session whose service throws a value without a message
  and would answer the second call: the fallback text is shown, the analysis stays
  empty, and one call was made.
\<close>

theorem failed_analysis_leaves_params_witness:
  "(\<lambda>n ps. if n = 0 then Inl (Thrown None)
            else Inr \<lparr>title = ''t'', explanation = ''e'', depthImplications = ''d'',
                      technicalNote = ''n''\<rparr>)
      (analyzeCalls initialAppState) (params initialAppState) = Inl (Thrown None) \<and>
   params (handleAnalyze
      (\<lambda>n ps. if n = 0 then Inl (Thrown None)
               else Inr \<lparr>title = ''t'', explanation = ''e'', depthImplications = ''d'',
                         technicalNote = ''n''\<rparr>) initialAppState) = DEFAULT_PARAMS \<and>
   analysis (handleAnalyze
      (\<lambda>n ps. if n = 0 then Inl (Thrown None)
               else Inr \<lparr>title = ''t'', explanation = ''e'', depthImplications = ''d'',
                         technicalNote = ''n''\<rparr>) initialAppState) = None \<and>
   isAnalyzing (handleAnalyze
      (\<lambda>n ps. if n = 0 then Inl (Thrown None)
               else Inr \<lparr>title = ''t'', explanation = ''e'', depthImplications = ''d'',
                         technicalNote = ''n''\<rparr>) initialAppState) = False \<and>
   error (handleAnalyze
      (\<lambda>n ps. if n = 0 then Inl (Thrown None)
               else Inr \<lparr>title = ''t'', explanation = ''e'', depthImplications = ''d'',
                         technicalNote = ''n''\<rparr>) initialAppState) = Some analysisFailedMessage \<and>
   analyzeCalls (handleAnalyze
      (\<lambda>n ps. if n = 0 then Inl (Thrown None)
               else Inr \<lparr>title = ''t'', explanation = ''e'', depthImplications = ''d'',
                         technicalNote = ''n''\<rparr>) initialAppState) = 1 \<and>
   ''key'' \<noteq> [] \<and>
   analyzeSimulation ''key'' (\<lambda>ps. Inl (Thrown None)) (\<lambda>txt. Inl (Thrown None)) DEFAULT_PARAMS
     = Inl (Thrown None) \<and>
   analyzeSimulation ''key'' (\<lambda>ps. Inr (Some ''{'')) (\<lambda>txt. Inl (Thrown None)) DEFAULT_PARAMS
     = Inl (Thrown None)"
  using failed_analysis_leaves_params
          [of "\<lambda>n ps. if n = 0 then Inl (Thrown None)
                       else Inr \<lparr>title = ''t'', explanation = ''e'', depthImplications = ''d'',
                                 technicalNote = ''n''\<rparr>"
              initialAppState "Thrown None" initialAppState "\<lambda>ps. Inl (Thrown None)"
              "\<lambda>txt. Inl (Thrown None)" DEFAULT_PARAMS "''key''" "''{''"]
        failed_analysis_leaves_params
          [of "\<lambda>n ps. Inl (Thrown None)"
              initialAppState "Thrown None" initialAppState "\<lambda>ps. Inr (Some ''{'')"
              "\<lambda>txt. Inl (Thrown None)" DEFAULT_PARAMS "''key''" "''{''"]
  by (simp add: initialAppState_def messageOr_def)

text \<open>
  C8. At interpupillary distance 0 and a strictly positive target distance the effect
  computes and stores the vergence angle 0.
\<close>

theorem cyclops_vergence_zero:
  "ipd q = Num 0 \<Longrightarrow> targetDistance q = Num d \<Longrightarrow> 0 < d \<Longrightarrow>
     totalVergence (ipd q) (targetDistance q) = Num 0 \<and>
     vergenceAngle (vergenceEffect q p) = Num 0"
  by (simp add: vergenceEffect_def totalVergence_Num)

text \<open>C8, at the default parameters with the interpupillary distance set to 0.\<close>

theorem cyclops_vergence_zero_witness:
  "ipd (DEFAULT_PARAMS\<lparr>ipd := Num 0\<rparr>) = Num 0 \<and>
   targetDistance (DEFAULT_PARAMS\<lparr>ipd := Num 0\<rparr>) = Num 2.5 \<and> (0::real) < 2.5 \<and>
   vergenceAngle (vergenceEffect (DEFAULT_PARAMS\<lparr>ipd := Num 0\<rparr>)
                    (DEFAULT_PARAMS\<lparr>ipd := Num 0\<rparr>)) = Num 0"
  using cyclops_vergence_zero
          [of "DEFAULT_PARAMS\<lparr>ipd := Num 0\<rparr>" "2.5" "DEFAULT_PARAMS\<lparr>ipd := Num 0\<rparr>"]
  by (simp add: DEFAULT_PARAMS_def)

text \<open>
  C9. Running the effect a second time changes nothing: the state after two runs is the
  state after one, and a run from any render with the same interpupillary distance and
  target distance stores the same angle again.
\<close>

theorem vergenceEffect_idempotent:
  "vergenceEffect (vergenceEffect p p) (vergenceEffect p p) = vergenceEffect p p \<and>
   (ipd q = ipd p \<and> targetDistance q = targetDistance p \<longrightarrow>
      vergenceAngle (vergenceEffect q (vergenceEffect p s)) = vergenceAngle (vergenceEffect p s))"
  by (simp add: vergenceEffect_def)

text \<open>C9, at the default parameters and a render that differs in a display toggle.\<close>

theorem vergenceEffect_idempotent_witness:
  "ipd (DEFAULT_PARAMS\<lparr>showFOV := False\<rparr>) = ipd DEFAULT_PARAMS \<and>
   targetDistance (DEFAULT_PARAMS\<lparr>showFOV := False\<rparr>) = targetDistance DEFAULT_PARAMS \<and>
   vergenceAngle (vergenceEffect (DEFAULT_PARAMS\<lparr>showFOV := False\<rparr>)
                    (vergenceEffect DEFAULT_PARAMS DEFAULT_PARAMS))
     = vergenceAngle (vergenceEffect DEFAULT_PARAMS DEFAULT_PARAMS)"
  using vergenceEffect_idempotent
          [of DEFAULT_PARAMS "DEFAULT_PARAMS\<lparr>showFOV := False\<rparr>" DEFAULT_PARAMS]
  by simp

text \<open>
  C10. When the text typed into the number box of a slider parses to NaN, \<open>onChange\<close> is
  not called and the parameter record stays as it was, also after the render; and
  \<open>onChange\<close> is called exactly when the text parses to something other than NaN.
\<close>

theorem numberInput_NaN_ignored:
  "(pf typed = NaN \<longrightarrow>
      numberInputOnChange pf (sliderMin sl) (sliderMax sl) typed = None \<and>
      applyEvent pf (NumberInput sl typed) s = s \<and>
      dispatch pf (NumberInput sl typed) s = s) \<and>
   ((\<exists>v. numberInputOnChange pf mn mx typed = Some v) \<longleftrightarrow> pf typed \<noteq> NaN)"
  by (cases "pf typed")
     (simp_all add: numberInputOnChange_def dispatch_def commit_def depsUnchanged_def)

text \<open>C10, at the text abc in the number box of the IPD slider.\<close>

theorem numberInput_NaN_ignored_witness:
  "(\<lambda>t. NaN) ''abc'' = NaN \<and>
   numberInputOnChange (\<lambda>t. NaN) (sliderMin IpdSlider) (sliderMax IpdSlider) ''abc'' = None \<and>
   applyEvent (\<lambda>t. NaN) (NumberInput IpdSlider ''abc'') DEFAULT_PARAMS = DEFAULT_PARAMS \<and>
   dispatch (\<lambda>t. NaN) (NumberInput IpdSlider ''abc'') DEFAULT_PARAMS = DEFAULT_PARAMS"
  using numberInput_NaN_ignored [of "\<lambda>t. NaN" "''abc''" IpdSlider DEFAULT_PARAMS]
  by simp

end
